theory Spec2Isabelle
  imports Main "HOL-Library.Word"
begin

section \<open>Machine types\<close>

text \<open>
  The wrapper classes of \<^verbatim>\<open>YggInterface.hpp\<close> pass argument counts as C++ \<^verbatim>\<open>int\<close>
  (32 bits, two's complement) and as \<^verbatim>\<open>size_t\<close> (an unsigned type of some width
  \<open>w\<close>, kept as a type parameter \<open>'w\<close>). The C layer modelled further down uses
  the 64-bit \<^verbatim>\<open>size_t\<close>.
\<close>

type_synonym int_t = "32 word"
type_synonym size_t = "64 word"
type_synonym byte = "8 word"

text \<open>
  The cast \<^verbatim>\<open>(size_t)nargs\<close>: C++ converts a signed integer to an unsigned type
  by taking the unique value of the destination type congruent to the source value
  modulo \<open>2 ^ w\<close>.
\<close>

definition size_t_of_int :: "int_t \<Rightarrow> 'w::len word" where
  "size_t_of_int n = word_of_int (sint n)"

section \<open>The wrapper classes of YggInterface.hpp\<close>

text \<open>
  Every class holds one member \<^verbatim>\<open>_pi\<close>, the C structure of the channel. The member
  functions forward to C functions declared in \<^verbatim>\<open>YggInterface.h\<close>; each wrapper takes
  the C function it calls as its first argument, so that what is proved of a wrapper
  holds for every implementation of that C function. A C function that acts on the
  transport has a result type that takes and returns the transport's state.
  The variable argument list \<^verbatim>\<open>...\<close> is the argument \<open>va\<close>.
\<close>

record 'h YggInput =
  input_pi :: 'h

record 'h YggOutput =
  output_pi :: 'h

record 'h YggRpc =
  rpc_pi :: 'h

subsection \<open>YggInput\<close>

text \<open>\<^verbatim>\<open>int recv(const int nargs, ...)\<close>: casts the count to \<^verbatim>\<open>size_t\<close> and calls
  \<^verbatim>\<open>vcommRecv(_pi, 0, nargs_copy, va)\<close>.\<close>

definition YggInput_recv_nargs ::
  "('h \<Rightarrow> int_t \<Rightarrow> 'w::len word \<Rightarrow> 'va \<Rightarrow> 'r) \<Rightarrow> 'h YggInput \<Rightarrow> int_t \<Rightarrow> 'va \<Rightarrow> 'r" where
  "YggInput_recv_nargs vcommRecv self nargs va =
     (let nargs_copy = size_t_of_int nargs
      in vcommRecv (input_pi self) 0 nargs_copy va)"

text \<open>\<^verbatim>\<open>int recvRealloc(const int nargs, ...)\<close>: the same call with the flag 1.\<close>

definition YggInput_recvRealloc ::
  "('h \<Rightarrow> int_t \<Rightarrow> 'w::len word \<Rightarrow> 'va \<Rightarrow> 'r) \<Rightarrow> 'h YggInput \<Rightarrow> int_t \<Rightarrow> 'va \<Rightarrow> 'r" where
  "YggInput_recvRealloc vcommRecv self nargs va =
     (let nargs_copy = size_t_of_int nargs
      in vcommRecv (input_pi self) 1 nargs_copy va)"

text \<open>\<^verbatim>\<open>int recv_nolimit(char **data, const size_t len)\<close>.\<close>

definition YggInput_recv_nolimit_data ::
  "('h \<Rightarrow> 'd \<Rightarrow> 'l \<Rightarrow> 'r) \<Rightarrow> 'h YggInput \<Rightarrow> 'd \<Rightarrow> 'l \<Rightarrow> 'r" where
  "YggInput_recv_nolimit_data ygg_recv_nolimit self data len =
     ygg_recv_nolimit (input_pi self) data len"

text \<open>\<^verbatim>\<open>int recv_nolimit(const int nargs, ...)\<close>: calls
  \<^verbatim>\<open>vyggRecv(_pi, 0, nargs, va)\<close> with the \<^verbatim>\<open>int\<close> as it is.\<close>

definition YggInput_recv_nolimit_nargs ::
  "('h \<Rightarrow> int_t \<Rightarrow> int_t \<Rightarrow> 'va \<Rightarrow> 'r) \<Rightarrow> 'h YggInput \<Rightarrow> int_t \<Rightarrow> 'va \<Rightarrow> 'r" where
  "YggInput_recv_nolimit_nargs vyggRecv self nargs va =
     vyggRecv (input_pi self) 0 nargs va"

subsection \<open>YggOutput\<close>

text \<open>\<^verbatim>\<open>int send(const char *data, const size_t len)\<close>.\<close>

definition YggOutput_send_data ::
  "('h \<Rightarrow> 'd \<Rightarrow> 'l \<Rightarrow> 'r) \<Rightarrow> 'h YggOutput \<Rightarrow> 'd \<Rightarrow> 'l \<Rightarrow> 'r" where
  "YggOutput_send_data ygg_send self data len = ygg_send (output_pi self) data len"

text \<open>\<^verbatim>\<open>int send(const int nargs, ...)\<close>.\<close>

definition YggOutput_send_nargs ::
  "('h \<Rightarrow> int_t \<Rightarrow> 'va \<Rightarrow> 'r) \<Rightarrow> 'h YggOutput \<Rightarrow> int_t \<Rightarrow> 'va \<Rightarrow> 'r" where
  "YggOutput_send_nargs vyggSend self nargs va = vyggSend (output_pi self) nargs va"

text \<open>\<^verbatim>\<open>int send_nolimit(const char *data, const size_t len)\<close>.\<close>

definition YggOutput_send_nolimit_data ::
  "('h \<Rightarrow> 'd \<Rightarrow> 'l \<Rightarrow> 'r) \<Rightarrow> 'h YggOutput \<Rightarrow> 'd \<Rightarrow> 'l \<Rightarrow> 'r" where
  "YggOutput_send_nolimit_data ygg_send_nolimit self data len =
     ygg_send_nolimit (output_pi self) data len"

text \<open>\<^verbatim>\<open>int send_nolimit(const int nargs, ...)\<close>.\<close>

definition YggOutput_send_nolimit_nargs ::
  "('h \<Rightarrow> int_t \<Rightarrow> 'va \<Rightarrow> 'r) \<Rightarrow> 'h YggOutput \<Rightarrow> int_t \<Rightarrow> 'va \<Rightarrow> 'r" where
  "YggOutput_send_nolimit_nargs vyggSend self nargs va = vyggSend (output_pi self) nargs va"

subsection \<open>YggRpc, YggRpcServer and YggRpcClient\<close>

text \<open>
  \<^verbatim>\<open>void _destroy_pi() { ygg_free(&_pi); }\<close>: the C function receives the address of
  the member, so it may change the member as well as the transport; its \<^verbatim>\<open>int\<close>
  result is dropped.
\<close>

definition YggRpc_destroy_pi ::
  "('h \<Rightarrow> 's \<Rightarrow> 'h \<times> 's) \<Rightarrow> 'h YggRpc \<Rightarrow> 's \<Rightarrow> 'h YggRpc \<times> 's" where
  "YggRpc_destroy_pi ygg_free self s =
     (case ygg_free (rpc_pi self) s of (p, s') \<Rightarrow> (self\<lparr>rpc_pi := p\<rparr>, s'))"

text \<open>\<^verbatim>\<open>~YggRpc() { _destroy_pi(); }\<close>.\<close>

definition YggRpc_dtor ::
  "('h \<Rightarrow> 's \<Rightarrow> 'h \<times> 's) \<Rightarrow> 'h YggRpc \<Rightarrow> 's \<Rightarrow> 'h YggRpc \<times> 's" where
  "YggRpc_dtor ygg_free self s = YggRpc_destroy_pi ygg_free self s"

text \<open>
  \<^verbatim>\<open>~YggRpcServer() { _destroy_pi(); }\<close> and \<^verbatim>\<open>~YggRpcClient() { _destroy_pi(); }\<close>.
  Both classes derive from \<^verbatim>\<open>YggRpc\<close> and add no member. Destroying an object of a
  derived class runs the body of its own destructor and then the destructor of its
  base class.
\<close>

definition YggRpcServer_dtor ::
  "('h \<Rightarrow> 's \<Rightarrow> 'h \<times> 's) \<Rightarrow> 'h YggRpc \<Rightarrow> 's \<Rightarrow> 'h YggRpc \<times> 's" where
  "YggRpcServer_dtor ygg_free self s =
     (case YggRpc_destroy_pi ygg_free self s of (self', s') \<Rightarrow> YggRpc_dtor ygg_free self' s')"

definition YggRpcClient_dtor ::
  "('h \<Rightarrow> 's \<Rightarrow> 'h \<times> 's) \<Rightarrow> 'h YggRpc \<Rightarrow> 's \<Rightarrow> 'h YggRpc \<times> 's" where
  "YggRpcClient_dtor ygg_free self s =
     (case YggRpc_destroy_pi ygg_free self s of (self', s') \<Rightarrow> YggRpc_dtor ygg_free self' s')"

section \<open>The C layer behind the wrappers\<close>

text \<open>
  The functions the wrappers call (\<^verbatim>\<open>ygg_free\<close>, \<^verbatim>\<open>ygg_send\<close>, \<^verbatim>\<open>ygg_send_nolimit\<close>,
  \<^verbatim>\<open>ygg_recv_nolimit\<close>, \<^verbatim>\<open>vcommRecv\<close>), the types \<^verbatim>\<open>yggInput_t\<close>, \<^verbatim>\<open>yggOutput_t\<close>,
  \<^verbatim>\<open>yggRpc_t\<close> and the macro \<^verbatim>\<open>YGG_MSG_MAX\<close> are declared in \<^verbatim>\<open>YggInterface.h\<close>, which is
  not among the source files. This section models them from the specification. Each
  definition names the sentences it follows.
\<close>

subsection \<open>Results\<close>

text \<open>Modelled from the spec: the error kinds of section 7 (\<^verbatim>\<open>YggInterface.h\<close> is missing).\<close>

datatype error = EncodingError | TruncatedMessage | BufferTooSmall | AllocationError
  | MessageTooLarge | ChannelClosed | ArgumentCountMismatch | TransportFailure

text \<open>
  Modelled from the spec: the signed result of section 6 (\<^verbatim>\<open>YggInterface.h\<close> is missing).
  A result is the count of bytes or fields obtained together with a status; the C
  \<^verbatim>\<open>int\<close> is the count when the status is \<open>Success\<close> and negative otherwise. The
  end of the stream is kept apart from the failures, since a receiver tells it from
  an empty message.
\<close>

datatype status = Success | EndOfStream | Failed error

type_synonym result = "nat \<times> status"

subsection \<open>Channel handles and RPC sessions\<close>

text \<open>
  Modelled from the spec: the channel handle of section 3, the missing declaration of
  \<^verbatim>\<open>yggInput_t\<close> and \<^verbatim>\<open>yggOutput_t\<close>. It has a name, a direction, the format descriptor
  bound at construction (the empty sequence when none was bound), a reference to its
  transport resource and the state of section 4.2, which records whether the
  resource was released. A field of a descriptor is known by its value kind; the
  encoding rules of a kind are a parameter (\<open>decode_field\<close> below).
\<close>

datatype direction = Input | Output

datatype chan_state = Open | Closed

datatype field_kind = IntegerField | FloatField | FixedText | VarBytes | NestedArray

record channel_handle =
  comm_name :: string
  comm_direction :: direction
  comm_fmt :: "field_kind list"
  comm_resource :: nat
  comm_state :: chan_state

type_synonym yggInput_t = channel_handle
type_synonym yggOutput_t = channel_handle

text \<open>
  Modelled from the spec: the RPC session of section 3, the missing declaration of
  \<^verbatim>\<open>yggRpc_t\<close>: exactly one output handle and one input handle.
\<close>

record yggRpc_t =
  rpc_output :: yggOutput_t
  rpc_input :: yggInput_t

subsection \<open>The transport\<close>

text \<open>
  Modelled from the spec: the wire shape of section 6 (the transport is an external
  collaborator). A bounded message is its payload; an unbounded message is a run of
  chunks, each with a continuation flag and the length of this chunk; the end of the
  stream is a reserved unit.
\<close>

datatype wire_unit = Payload "byte list" | Chunk bool nat "byte list" | EOF_sentinel

text \<open>The bytes a unit carries.\<close>

fun unit_bytes :: "wire_unit \<Rightarrow> byte list" where
  "unit_bytes (Payload bs) = bs"
| "unit_bytes (Chunk cont n bs) = bs"
| "unit_bytes EOF_sentinel = []"

text \<open>
  Modelled from the spec: the transport at its interface boundary (section 6). Every
  resource has a queue of units, delivered in the order sent (section 5); \<open>released\<close>
  lists the resources released so far, in order; \<open>fail_send\<close> says that the
  transport refuses to send (\<open>TransportFailure\<close>).
\<close>

record transport =
  queue :: "nat \<Rightarrow> wire_unit list"
  released :: "nat list"
  fail_send :: bool

text \<open>Modelled from the spec: handing one unit to the transport; a transport that
  refuses leaves its state as it was (section 7).\<close>

definition transport_send :: "nat \<Rightarrow> wire_unit \<Rightarrow> transport \<Rightarrow> result \<times> transport" where
  "transport_send r u t =
     (if fail_send t then ((0, Failed TransportFailure), t)
      else ((0, Success), t\<lparr>queue := (queue t)(r := queue t r @ [u])\<rparr>))"

subsection \<open>Parameters\<close>

text \<open>
  Modelled from the spec: what the specification leaves to the platform. \<open>YGG_MSG_MAX\<close>
  is the inline limit (the missing macro). \<open>decode_field k bs\<close> decodes one field of
  kind \<open>k\<close> from the front of \<open>bs\<close> and returns its bytes and the rest of the
  message, or nothing when the bytes do not suffice (section 3 leaves the encoding
  rules to the kind). \<open>alloc_ok n\<close> says whether the allocator grants \<open>n\<close> bytes.
\<close>

record platform =
  YGG_MSG_MAX :: nat
  decode_field :: "field_kind \<Rightarrow> byte list \<Rightarrow> (byte list \<times> byte list) option"
  alloc_ok :: "nat \<Rightarrow> bool"

subsection \<open>Teardown\<close>

text \<open>
  Modelled from the spec: \<^verbatim>\<open>ygg_free\<close> (missing), from section 3: the handle owns its
  resource and releases it once; the teardown is idempotent because the handle
  records whether the release already occurred. The state moves from \<open>Open\<close> to
  \<open>Closed\<close> (section 4.2).
\<close>

definition ygg_free :: "channel_handle \<Rightarrow> transport \<Rightarrow> channel_handle \<times> transport" where
  "ygg_free h t =
     (case comm_state h of
        Closed \<Rightarrow> (h, t)
      | Open \<Rightarrow> (h\<lparr>comm_state := Closed\<rparr>, t\<lparr>released := released t @ [comm_resource h]\<rparr>))"

text \<open>
  Modelled from the spec: \<^verbatim>\<open>ygg_free\<close> on an RPC structure (missing), from section 3:
  destroying the session destroys both of its handles.
\<close>

definition ygg_free_rpc :: "yggRpc_t \<Rightarrow> transport \<Rightarrow> yggRpc_t \<times> transport" where
  "ygg_free_rpc r t =
     (case ygg_free (rpc_output r) t of (out, t1) \<Rightarrow>
      case ygg_free (rpc_input r) t1 of (inp, t2) \<Rightarrow>
        (r\<lparr>rpc_output := out, rpc_input := inp\<rparr>, t2))"

subsection \<open>Size-limited transfer\<close>

text \<open>
  Modelled from the spec: the sender's split of section 4.3 (missing): the message is
  cut into chunks of the inline limit; every chunk but the last carries the
  continuation flag. With a limit of 0 the C loop would not advance; the model sends
  one chunk then.
\<close>

function split_chunks :: "nat \<Rightarrow> byte list \<Rightarrow> wire_unit list" where
  "split_chunks m bs =
     (if m = 0 \<or> length bs \<le> m then [Chunk False (length bs) bs]
      else Chunk True m (take m bs) # split_chunks m (drop m bs))"
  by pat_completeness auto
termination
  by (relation "measure (\<lambda>(m, bs). length bs)") auto

text \<open>Modelled from the spec: the units of one message go to the transport in order;
  the first refusal ends the transfer (section 5).\<close>

fun send_units :: "nat \<Rightarrow> wire_unit list \<Rightarrow> transport \<Rightarrow> result \<times> transport" where
  "send_units r [] t = ((0, Success), t)"
| "send_units r (u # us) t =
     (case transport_send r u t of
        (res, t') \<Rightarrow> if snd res = Success then send_units r us t' else (res, t'))"

text \<open>
  Modelled from the spec: the receiver's reassembly of section 4.3 (missing): chunks
  are taken from the front of the queue up to the first one without the continuation
  flag, and the bytes each announces are joined. A queue that ends, or holds another
  unit, before the last chunk is a transport failure.
\<close>

fun reassemble :: "wire_unit list \<Rightarrow> (status \<times> byte list) \<times> wire_unit list" where
  "reassemble (Chunk cont n bs # us) =
     (if cont then
        (case reassemble us of
           (res, us') \<Rightarrow>
             if fst res = Success then ((Success, take n bs @ snd res), us')
             else ((fst res, []), us'))
      else ((Success, take n bs), us))"
| "reassemble us = ((Failed TransportFailure, []), us)"

text \<open>
  Modelled from the spec: taking the next message of a resource (sections 2 and 4.3):
  a bounded message is its payload, an unbounded one is re-joined, the reserved unit
  is the end of the stream; nothing to receive is a transport failure.
\<close>

definition recv_message :: "nat \<Rightarrow> transport \<Rightarrow> (status \<times> byte list) \<times> transport" where
  "recv_message r t =
     (case queue t r of
        [] \<Rightarrow> ((Failed TransportFailure, []), t)
      | Payload bs # us \<Rightarrow> ((Success, bs), t\<lparr>queue := (queue t)(r := us)\<rparr>)
      | EOF_sentinel # us \<Rightarrow> ((EndOfStream, []), t\<lparr>queue := (queue t)(r := us)\<rparr>)
      | Chunk cont n bs # us \<Rightarrow>
          (case reassemble (queue t r) of
             (res, us') \<Rightarrow> (res, t\<lparr>queue := (queue t)(r := us')\<rparr>)))"

text \<open>
  Modelled from the spec: \<^verbatim>\<open>ygg_send\<close> (missing), the bounded raw send of sections 4.2
  and 4.3: the endpoint must be open; a message over the inline limit is
  \<open>MessageTooLarge\<close> and nothing is sent; otherwise exactly \<open>len\<close> bytes go out as one
  unit. The wrapper's comment gives the result: 0 when the send succeeded.
\<close>

definition ygg_send ::
  "platform \<Rightarrow> yggOutput_t \<Rightarrow> byte list \<Rightarrow> size_t \<Rightarrow> transport \<Rightarrow> result \<times> transport" where
  "ygg_send P h data len t =
     (if comm_state h = Closed then ((0, Failed ChannelClosed), t)
      else if YGG_MSG_MAX P < unat len then ((0, Failed MessageTooLarge), t)
      else transport_send (comm_resource h) (Payload (take (unat len) data)) t)"

text \<open>Modelled from the spec: \<^verbatim>\<open>ygg_send_nolimit\<close> (missing), the unbounded raw send of
  section 4.3.\<close>

definition ygg_send_nolimit ::
  "platform \<Rightarrow> yggOutput_t \<Rightarrow> byte list \<Rightarrow> size_t \<Rightarrow> transport \<Rightarrow> result \<times> transport" where
  "ygg_send_nolimit P h data len t =
     (if comm_state h = Closed then ((0, Failed ChannelClosed), t)
      else send_units (comm_resource h)
             (split_chunks (YGG_MSG_MAX P) (take (unat len) data)) t)"

text \<open>
  Modelled from the spec: \<^verbatim>\<open>ygg_recv_nolimit\<close> (missing), the unbounded raw receive of
  section 4.3. It returns the count of bytes obtained and the buffer that holds them;
  it builds that buffer itself and does not trust the caller's capacity \<open>len\<close>. On
  a failure the caller's buffer is as it was.
\<close>

definition ygg_recv_nolimit ::
  "yggInput_t \<Rightarrow> byte list \<Rightarrow> size_t \<Rightarrow> transport \<Rightarrow> result \<times> byte list \<times> transport" where
  "ygg_recv_nolimit h data len t =
     (if comm_state h = Closed then ((0, Failed ChannelClosed), data, t)
      else case recv_message (comm_resource h) t of
             (res, t') \<Rightarrow>
               if fst res = Success then ((length (snd res), Success), snd res, t')
               else ((0, fst res), data, t'))"

subsection \<open>The codec's unpack and the formatted receive\<close>

text \<open>
  Modelled from the spec: a destination of section 3, a storage location of the
  caller with its current capacity and the bytes it holds.
\<close>

record buffer =
  buf_capacity :: nat
  buf_contents :: "byte list"

text \<open>Modelled from the spec: \<open>unpack\<close> returns the number of fields filled
  (section 4.1); a field written in front of the remaining walk adds one to its
  count.\<close>

definition filled :: "buffer \<Rightarrow> result \<times> buffer list \<Rightarrow> result \<times> buffer list" where
  "filled d r = (case r of ((k, st), ds) \<Rightarrow> ((Suc k, st), d # ds))"

text \<open>
  Modelled from the spec: \<open>unpack\<close> of section 4.1 (missing). It walks the descriptor
  in step with the destinations. A field that does not decode is \<open>TruncatedMessage\<close>.
  A field that fits is written into its destination. A destination too small for its
  field stops the walk with \<open>BufferTooSmall\<close> in fixed mode; in reallocation mode
  its capacity is raised to the bytes the field needs before the write, and a refused
  growth is \<open>AllocationError\<close>. The count is the number of fields filled before
  the stop; bytes left after the last field are ignored. A descriptor longer than the
  destination list breaks the rule of section 3 that the two have the same length.
\<close>

fun unpack_fields ::
  "platform \<Rightarrow> bool \<Rightarrow> field_kind list \<Rightarrow> byte list \<Rightarrow> buffer list \<Rightarrow> result \<times> buffer list" where
  "unpack_fields P reallocate [] bs ds = ((0, Success), ds)"
| "unpack_fields P reallocate (f # fs) bs [] = ((0, Failed ArgumentCountMismatch), [])"
| "unpack_fields P reallocate (f # fs) bs (d # ds) =
     (case decode_field P f bs of
        None \<Rightarrow> ((0, Failed TruncatedMessage), d # ds)
      | Some (v, rest) \<Rightarrow>
          if length v \<le> buf_capacity d
            then filled (d\<lparr>buf_contents := v\<rparr>) (unpack_fields P reallocate fs rest ds)
          else if \<not> reallocate
            then ((0, Failed BufferTooSmall), d # ds)
          else if alloc_ok P (length v)
            then filled (d\<lparr>buf_capacity := length v, buf_contents := v\<rparr>)
                   (unpack_fields P reallocate fs rest ds)
          else ((0, Failed AllocationError), d # ds))"

text \<open>Modelled from the spec: the edge case of section 4.1, an empty message with a
  descriptor that has fields is \<open>TruncatedMessage\<close>.\<close>

definition unpack ::
  "platform \<Rightarrow> bool \<Rightarrow> field_kind list \<Rightarrow> byte list \<Rightarrow> buffer list \<Rightarrow> result \<times> buffer list" where
  "unpack P reallocate fs bs ds =
     (if bs = [] \<and> fs \<noteq> [] then ((0, Failed TruncatedMessage), ds)
      else unpack_fields P reallocate fs bs ds)"

text \<open>
  Modelled from the spec: the collapse of section 7 (missing). The codec hands the
  endpoint a count and a kind; the endpoint hands its caller one signed \<^verbatim>\<open>int\<close>
  (section 6): the count on success, a negative value otherwise, and callers branch
  on the sign only. The wrapper's comments name \<^verbatim>\<open>-1\<close> for a raw send or receive
  that failed, and say of the formatted receive that values of 0 and above indicate
  success.
\<close>

definition signed_status :: "result \<Rightarrow> int_t" where
  "signed_status r = (if snd r = Success then of_nat (fst r) else - 1)"

text \<open>
  Modelled from the spec: \<^verbatim>\<open>vcommRecv\<close> (missing), the formatted receive of section 4.2:
  the endpoint must be open; the destinations must be as many as the descriptor's
  fields (section 3); then the next message is unpacked with the bound descriptor.
  The flag is the \<open>reallocate\<close> of section 4.1. The C function returns one
  \<^verbatim>\<open>int\<close>, the signed status; the destinations are written through the pointers
  of the argument list and are returned beside it. The message leaves the queue when
  the receive succeeds. A failure leaves the transport as it was, so that the call can
  be made again (section 7); the destinations filled before the stop keep their
  fields (section 4.1). Meeting the end of the stream takes its unit off the queue.
\<close>

definition vcommRecv ::
  "platform \<Rightarrow> yggInput_t \<Rightarrow> int_t \<Rightarrow> size_t \<Rightarrow> buffer list \<Rightarrow> transport
     \<Rightarrow> int_t \<times> buffer list \<times> transport" where
  "vcommRecv P h allow_realloc nargs va t =
     (if comm_state h = Closed then (signed_status (0, Failed ChannelClosed), va, t)
      else if unat nargs \<noteq> length (comm_fmt h) \<or> length va \<noteq> length (comm_fmt h)
        then (signed_status (0, Failed ArgumentCountMismatch), va, t)
      else case recv_message (comm_resource h) t of
             (res, t') \<Rightarrow>
               if fst res = Success
                 then (case unpack P (allow_realloc \<noteq> 0) (comm_fmt h) (snd res) va of
                         (r, va') \<Rightarrow>
                           (signed_status r, va', if snd r = Success then t' else t))
               else (signed_status (0, fst res), va,
                     if fst res = EndOfStream then t' else t))"

section \<open>Auxiliary notions and example data\<close>


text \<open>A release function that also lists the structures it was applied to.\<close>

definition traced :: "('h \<Rightarrow> 's \<Rightarrow> 'h \<times> 's) \<Rightarrow> 'h \<Rightarrow> 'h list \<times> 's \<Rightarrow> 'h \<times> 'h list \<times> 's" where
  "traced f p w = (case f p (snd w) of (p', s') \<Rightarrow> (p', fst w @ [p], s'))"

text \<open>An example decoder: a field is one length byte and that many bytes.\<close>

definition length_prefixed :: "field_kind \<Rightarrow> byte list \<Rightarrow> (byte list \<times> byte list) option" where
  "length_prefixed k bs =
     (case bs of
        [] \<Rightarrow> None
      | n # rest \<Rightarrow>
          if unat n \<le> length rest then Some (take (unat n) rest, drop (unat n) rest)
          else None)"

definition demo_platform :: platform where
  "demo_platform = \<lparr>YGG_MSG_MAX = 4, decode_field = length_prefixed, alloc_ok = (\<lambda>n. True)\<rparr>"


definition idle_transport :: transport where
  "idle_transport = \<lparr>queue = (\<lambda>r. []), released = [], fail_send = False\<rparr>"

definition demo_out :: channel_handle where
  "demo_out = \<lparr>comm_name = ''rpc'', comm_direction = Output, comm_fmt = [VarBytes],
     comm_resource = 1, comm_state = Open\<rparr>"

definition demo_in :: channel_handle where
  "demo_in = \<lparr>comm_name = ''rpc'', comm_direction = Input, comm_fmt = [VarBytes],
     comm_resource = 2, comm_state = Open\<rparr>"

definition demo_rpc :: yggRpc_t where
  "demo_rpc = \<lparr>rpc_output = demo_out, rpc_input = demo_in\<rparr>"

definition demo_rpc_freed :: yggRpc_t where
  "demo_rpc_freed = \<lparr>rpc_output = demo_out\<lparr>comm_state := Closed\<rparr>,
     rpc_input = demo_in\<lparr>comm_state := Closed\<rparr>\<rparr>"

definition demo_output :: "channel_handle YggOutput" where
  "demo_output = \<lparr>output_pi = demo_out\<rparr>"

text \<open>The input endpoint at the other end of \<open>demo_output\<close>'s channel.\<close>

definition demo_peer :: "channel_handle YggInput" where
  "demo_peer = \<lparr>input_pi = demo_out\<lparr>comm_direction := Input\<rparr>\<rparr>"

definition hello :: "byte list" where
  "hello = [104, 101, 108, 108, 111]"








section \<open>Lemmas on the modelled C layer\<close>

declare split_chunks.simps [simp del]

lemma ygg_free_rpc_idempotent:
  "ygg_free_rpc (fst (ygg_free_rpc r t)) (snd (ygg_free_rpc r t)) = ygg_free_rpc r t"
  by (cases "comm_state (rpc_output r)"; cases "comm_state (rpc_input r)")
     (simp_all add: ygg_free_rpc_def ygg_free_def)

lemma reassemble_split_chunks:
  "reassemble (split_chunks m bs @ us) = ((Success, bs), us)"
proof (induction m bs rule: split_chunks.induct)
  case (1 m bs)
  show ?case
  proof (cases "m = 0 \<or> length bs \<le> m")
    case True
    then show ?thesis
      by (simp add: split_chunks.simps [of m bs])
  next
    case False
    with "1.IH" have "reassemble (split_chunks m (drop m bs) @ us) = ((Success, drop m bs), us)"
      by simp
    with False show ?thesis
      by (simp add: split_chunks.simps [of m bs])
  qed
qed

lemma split_chunks_within_limit:
  "0 < m \<Longrightarrow> u \<in> set (split_chunks m bs) \<Longrightarrow> length (unit_bytes u) \<le> m"
proof (induction m bs rule: split_chunks.induct)
  case (1 m bs)
  show ?case
  proof (cases "length bs \<le> m")
    case True
    with "1.prems" show ?thesis
      by (simp add: split_chunks.simps [of m bs])
  next
    case False
    with "1.prems" have "u = Chunk True m (take m bs) \<or> u \<in> set (split_chunks m (drop m bs))"
      by (simp add: split_chunks.simps [of m bs])
    then show ?thesis
    proof
      assume "u = Chunk True m (take m bs)"
      then show ?thesis by simp
    next
      assume "u \<in> set (split_chunks m (drop m bs))"
      with "1.IH" "1.prems"(1) False show ?thesis by simp
    qed
  qed
qed

lemma split_chunks_starts_with_chunk:
  "\<exists>cont n cs rest. split_chunks m bs = Chunk cont n cs # rest"
  by (subst split_chunks.simps) auto

lemma send_units_delivers:
  "\<not> fail_send t \<Longrightarrow>
   send_units r us t = ((0, Success), t\<lparr>queue := (queue t)(r := queue t r @ us)\<rparr>)"
proof (induction us arbitrary: t)
  case Nil
  then show ?case by simp
next
  case (Cons u us)
  let ?t' = "t\<lparr>queue := (queue t)(r := queue t r @ [u])\<rparr>"
  from Cons.prems have step: "transport_send r u t = ((0, Success), ?t')"
    by (simp add: transport_send_def)
  from Cons.prems have "\<not> fail_send ?t'"
    by simp
  then have rest: "send_units r us ?t' =
      ((0, Success), ?t'\<lparr>queue := (queue ?t')(r := queue ?t' r @ us)\<rparr>)"
    by (rule Cons.IH)
  have same: "?t'\<lparr>queue := (queue ?t')(r := queue ?t' r @ us)\<rparr>
      = t\<lparr>queue := (queue t)(r := queue t r @ u # us)\<rparr>"
    by simp
  have "send_units r (u # us) t = send_units r us ?t'"
    using step by simp
  then show ?case
    by (simp only: rest same)
qed

lemma recv_message_chunked:
  assumes "queue t r = split_chunks m bs @ us"
  shows "recv_message r t = ((Success, bs), t\<lparr>queue := (queue t)(r := us)\<rparr>)"
proof -
  obtain cont n cs rest where hd: "split_chunks m bs = Chunk cont n cs # rest"
    using split_chunks_starts_with_chunk by blast
  have "reassemble (queue t r) = ((Success, bs), us)"
    using assms by (simp add: reassemble_split_chunks)
  moreover have "queue t r = Chunk cont n cs # (rest @ us)"
    using assms hd by simp
  ultimately show ?thesis
    by (simp add: recv_message_def)
qed








section \<open>Destruction of an RPC object\<close>

text \<open>
  Claim C2, as amended. Destroying a \<^verbatim>\<open>YggRpcServer\<close> or \<^verbatim>\<open>YggRpcClient\<close> object
  applies \<^verbatim>\<open>ygg_free\<close> to the session's structure twice: once from the body of the
  derived destructor and once from \<^verbatim>\<open>~YggRpc\<close>, the second time to the structure as
  the first application left it. This holds for every function \<open>c_free\<close> in the
  place of \<^verbatim>\<open>ygg_free\<close>. When that function is idempotent (applied to what it
  returned, it changes neither the structure nor the transport), the destruction has
  exactly the effect of one \<^verbatim>\<open>_destroy_pi\<close>, so each underlying handle is released
  once.
\<close>

theorem rpc_destructor_applies_ygg_free_twice:
  "YggRpcServer_dtor c_free self s =
     (case c_free (rpc_pi self) s of (p1, s1) \<Rightarrow>
      case c_free p1 s1 of (p2, s2) \<Rightarrow> (self\<lparr>rpc_pi := p2\<rparr>, s2))
   \<and> YggRpcClient_dtor c_free self s = YggRpcServer_dtor c_free self s
   \<and> ((\<forall>p u. c_free (fst (c_free p u)) (snd (c_free p u)) = c_free p u) \<longrightarrow>
        YggRpcServer_dtor c_free self s = YggRpc_destroy_pi c_free self s
        \<and> YggRpcClient_dtor c_free self s = YggRpc_destroy_pi c_free self s)"
proof -
  have twice: "YggRpcServer_dtor c_free self s =
     (case c_free (rpc_pi self) s of (p1, s1) \<Rightarrow>
      case c_free p1 s1 of (p2, s2) \<Rightarrow> (self\<lparr>rpc_pi := p2\<rparr>, s2))"
    by (simp add: YggRpcServer_dtor_def YggRpc_dtor_def YggRpc_destroy_pi_def
        split: prod.splits)
  have same: "YggRpcClient_dtor c_free self s = YggRpcServer_dtor c_free self s"
    by (simp add: YggRpcClient_dtor_def YggRpcServer_dtor_def)
  have once: "YggRpcServer_dtor c_free self s = YggRpc_destroy_pi c_free self s"
    if idem: "\<forall>p u. c_free (fst (c_free p u)) (snd (c_free p u)) = c_free p u"
  proof -
    obtain p1 s1 where first: "c_free (rpc_pi self) s = (p1, s1)"
      by (cases "c_free (rpc_pi self) s")
    from idem have "c_free (fst (c_free (rpc_pi self) s)) (snd (c_free (rpc_pi self) s))
        = c_free (rpc_pi self) s"
      by blast
    with first have second: "c_free p1 s1 = (p1, s1)"
      by simp
    show ?thesis
      by (simp add: twice first second YggRpc_destroy_pi_def)
  qed
  from twice same once show ?thesis
    by simp
qed

text \<open>
  The theorem at the modelled \<^verbatim>\<open>ygg_free\<close>, which is idempotent: destroying a server or
  a client whose handles are open releases the resources 1 and 2 once each.
\<close>

theorem rpc_destructor_idempotent_free_witness:
  "(\<forall>p u. ygg_free_rpc (fst (ygg_free_rpc p u)) (snd (ygg_free_rpc p u)) = ygg_free_rpc p u)
   \<and> YggRpcServer_dtor ygg_free_rpc \<lparr>rpc_pi = demo_rpc\<rparr> idle_transport
       = (\<lparr>rpc_pi = demo_rpc_freed\<rparr>, idle_transport\<lparr>released := [1, 2]\<rparr>)
   \<and> YggRpcClient_dtor ygg_free_rpc \<lparr>rpc_pi = demo_rpc\<rparr> idle_transport
       = (\<lparr>rpc_pi = demo_rpc_freed\<rparr>, idle_transport\<lparr>released := [1, 2]\<rparr>)"
proof -
  have idem: "\<forall>p u. ygg_free_rpc (fst (ygg_free_rpc p u)) (snd (ygg_free_rpc p u)) = ygg_free_rpc p u"
    by (simp add: ygg_free_rpc_idempotent)
  have once: "YggRpc_destroy_pi ygg_free_rpc \<lparr>rpc_pi = demo_rpc\<rparr> idle_transport
       = (\<lparr>rpc_pi = demo_rpc_freed\<rparr>, idle_transport\<lparr>released := [1, 2]\<rparr>)"
    by (simp add: YggRpc_destroy_pi_def ygg_free_rpc_def ygg_free_def demo_rpc_def
        demo_rpc_freed_def demo_out_def demo_in_def idle_transport_def)
  note both = rpc_destructor_applies_ygg_free_twice
    [of ygg_free_rpc "\<lparr>rpc_pi = demo_rpc\<rparr>" idle_transport,
      THEN conjunct2, THEN conjunct2, THEN mp, OF idem]
  from idem both once show ?thesis
    by simp
qed

text \<open>
  The claim as first stated says that \<^verbatim>\<open>ygg_free\<close> is never applied to a handle that was
  already released during the destruction. Here the destructor of a server, and of a
  client, applies the release function to \<open>demo_rpc\<close> and then to \<open>demo_rpc_freed\<close>,
  whose two handles are closed.
\<close>

theorem rpc_destructor_second_free_on_released:
  "YggRpcServer_dtor (traced ygg_free_rpc) \<lparr>rpc_pi = demo_rpc\<rparr> ([], idle_transport)
     = (\<lparr>rpc_pi = demo_rpc_freed\<rparr>, [demo_rpc, demo_rpc_freed], idle_transport\<lparr>released := [1, 2]\<rparr>)
   \<and> YggRpcClient_dtor (traced ygg_free_rpc) \<lparr>rpc_pi = demo_rpc\<rparr> ([], idle_transport)
     = (\<lparr>rpc_pi = demo_rpc_freed\<rparr>, [demo_rpc, demo_rpc_freed], idle_transport\<lparr>released := [1, 2]\<rparr>)
   \<and> comm_state (rpc_output demo_rpc_freed) = Closed
   \<and> comm_state (rpc_input demo_rpc_freed) = Closed"
  by (simp add: YggRpcServer_dtor_def YggRpcClient_dtor_def YggRpc_dtor_def YggRpc_destroy_pi_def
      traced_def ygg_free_rpc_def ygg_free_def demo_rpc_def demo_rpc_freed_def demo_out_def
      demo_in_def idle_transport_def)

section \<open>Fixed and growable formatted receive\<close>




section \<open>Bounded and unbounded raw send\<close>

text \<open>
  Claim C7. On an open output endpoint the bounded \<^verbatim>\<open>send(data, len)\<close> succeeds when
  \<open>len\<close> is at most \<open>YGG_MSG_MAX\<close> and the transport accepts the unit, and then
  exactly the payload is queued; when \<open>len\<close> exceeds the limit it fails with
  \<open>MessageTooLarge\<close> and the transport is as before, so nothing was sent. A payload of
  any length, one byte over the limit included, goes through \<^verbatim>\<open>send_nolimit(data, len)\<close>:
  the send succeeds, no unit on the wire carries more than the limit, and
  \<^verbatim>\<open>recv_nolimit\<close> at the other end of the channel returns the bytes of the payload.
\<close>

theorem bounded_send_limit_and_chunked_transfer:
  assumes opened: "comm_state (output_pi self) = Open"
  shows "(unat len \<le> YGG_MSG_MAX P \<and> \<not> fail_send t \<longrightarrow>
            YggOutput_send_data (ygg_send P) self data len t =
              ((0, Success),
               t\<lparr>queue := (queue t)(comm_resource (output_pi self) :=
                    queue t (comm_resource (output_pi self)) @ [Payload (take (unat len) data)])\<rparr>))
       \<and> (YGG_MSG_MAX P < unat len \<longrightarrow>
            YggOutput_send_data (ygg_send P) self data len t = ((0, Failed MessageTooLarge), t))
       \<and> (\<not> fail_send t \<and> queue t (comm_resource (output_pi self)) = []
            \<and> comm_state (input_pi peer) = Open
            \<and> comm_resource (input_pi peer) = comm_resource (output_pi self) \<longrightarrow>
            fst (YggOutput_send_nolimit_data (ygg_send_nolimit P) self data len t) = (0, Success)
            \<and> (0 < YGG_MSG_MAX P \<longrightarrow>
                 (\<forall>u \<in> set (queue (snd (YggOutput_send_nolimit_data (ygg_send_nolimit P) self data len t))
                              (comm_resource (output_pi self))).
                    length (unit_bytes u) \<le> YGG_MSG_MAX P))
            \<and> YggInput_recv_nolimit_data ygg_recv_nolimit peer buf buflen
                (snd (YggOutput_send_nolimit_data (ygg_send_nolimit P) self data len t))
              = ((length (take (unat len) data), Success), take (unat len) data, t))"
proof -
  let ?r = "comm_resource (output_pi self)"
  let ?msg = "take (unat len) data"
  have bounded_ok: "YggOutput_send_data (ygg_send P) self data len t =
      ((0, Success), t\<lparr>queue := (queue t)(?r := queue t ?r @ [Payload ?msg])\<rparr>)"
    if "unat len \<le> YGG_MSG_MAX P" "\<not> fail_send t"
    using that opened by (simp add: YggOutput_send_data_def ygg_send_def transport_send_def)
  have bounded_fail: "YggOutput_send_data (ygg_send P) self data len t =
      ((0, Failed MessageTooLarge), t)"
    if "YGG_MSG_MAX P < unat len"
    using that opened by (simp add: YggOutput_send_data_def ygg_send_def)
  have unbounded: "fst (YggOutput_send_nolimit_data (ygg_send_nolimit P) self data len t) = (0, Success)
      \<and> (0 < YGG_MSG_MAX P \<longrightarrow>
           (\<forall>u \<in> set (queue (snd (YggOutput_send_nolimit_data (ygg_send_nolimit P) self data len t)) ?r).
              length (unit_bytes u) \<le> YGG_MSG_MAX P))
      \<and> YggInput_recv_nolimit_data ygg_recv_nolimit peer buf buflen
           (snd (YggOutput_send_nolimit_data (ygg_send_nolimit P) self data len t))
         = ((length ?msg, Success), ?msg, t)"
    if ok: "\<not> fail_send t" and empty: "queue t ?r = []"
      and peer: "comm_state (input_pi peer) = Open" "comm_resource (input_pi peer) = ?r"
  proof -
    let ?t1 = "t\<lparr>queue := (queue t)(?r := split_chunks (YGG_MSG_MAX P) ?msg)\<rparr>"
    have sent: "YggOutput_send_nolimit_data (ygg_send_nolimit P) self data len t = ((0, Success), ?t1)"
      using opened ok empty
      by (simp add: YggOutput_send_nolimit_data_def ygg_send_nolimit_def send_units_delivers)
    have on_wire: "queue ?t1 ?r = split_chunks (YGG_MSG_MAX P) ?msg"
      by simp
    have sizes: "\<forall>u \<in> set (queue ?t1 ?r). length (unit_bytes u) \<le> YGG_MSG_MAX P"
      if "0 < YGG_MSG_MAX P"
      using that split_chunks_within_limit [of "YGG_MSG_MAX P" _ ?msg] by (simp only: on_wire) blast
    have "queue ?t1 ?r = split_chunks (YGG_MSG_MAX P) ?msg @ []"
      by simp
    then have "recv_message ?r ?t1 = ((Success, ?msg), ?t1\<lparr>queue := (queue ?t1)(?r := [])\<rparr>)"
      by (rule recv_message_chunked)
    moreover have "?t1\<lparr>queue := (queue ?t1)(?r := [])\<rparr> = t"
      using empty by (simp add: fun_upd_idem)
    ultimately have "recv_message ?r ?t1 = ((Success, ?msg), t)"
      by simp
    with peer have got: "YggInput_recv_nolimit_data ygg_recv_nolimit peer buf buflen ?t1
        = ((length ?msg, Success), ?msg, t)"
      by (simp add: YggInput_recv_nolimit_data_def ygg_recv_nolimit_def)
    from sizes got show ?thesis
      by (simp only: sent fst_conv snd_conv) blast
  qed
  from bounded_ok bounded_fail unbounded show ?thesis
    by blast
qed

text \<open>
  The theorem at a limit of 4 bytes: four bytes go through the bounded send; the five
  bytes of \<open>hello\<close>, one over the limit, are refused by it and travel as two chunks
  through the unbounded path.
\<close>

theorem bounded_send_limit_witness:
  "comm_state (output_pi demo_output) = Open
   \<and> YggOutput_send_data (ygg_send demo_platform) demo_output hello 4 idle_transport =
       ((0, Success), idle_transport\<lparr>queue := (queue idle_transport)(1 := [Payload [104, 101, 108, 108]])\<rparr>)
   \<and> YggOutput_send_data (ygg_send demo_platform) demo_output hello 5 idle_transport =
       ((0, Failed MessageTooLarge), idle_transport)
   \<and> YggOutput_send_nolimit_data (ygg_send_nolimit demo_platform) demo_output hello 5 idle_transport =
       ((0, Success),
        idle_transport\<lparr>queue := (queue idle_transport)
          (1 := [Chunk True 4 [104, 101, 108, 108], Chunk False 1 [111]])\<rparr>)
   \<and> YggInput_recv_nolimit_data ygg_recv_nolimit demo_peer [] 0
       (snd (YggOutput_send_nolimit_data (ygg_send_nolimit demo_platform) demo_output hello 5 idle_transport))
       = ((5, Success), hello, idle_transport)"
proof -
  have opened: "comm_state (output_pi demo_output) = Open"
    by (simp add: demo_output_def demo_out_def)
  have r: "comm_resource (output_pi demo_output) = 1"
    by (simp add: demo_output_def demo_out_def)
  note at_limit = bounded_send_limit_and_chunked_transfer
    [OF opened, where len = 4 and P = demo_platform and t = idle_transport and peer = demo_peer
      and data = hello and buf = "[]" and buflen = 0]
  note over_limit = bounded_send_limit_and_chunked_transfer
    [OF opened, where len = 5 and P = demo_platform and t = idle_transport and peer = demo_peer
      and data = hello and buf = "[]" and buflen = 0]
  from at_limit have a: "YggOutput_send_data (ygg_send demo_platform) demo_output hello 4 idle_transport =
       ((0, Success), idle_transport\<lparr>queue := (queue idle_transport)(1 := [Payload [104, 101, 108, 108]])\<rparr>)"
    by (simp add: r demo_platform_def idle_transport_def hello_def)
  from over_limit have b: "YggOutput_send_data (ygg_send demo_platform) demo_output hello 5 idle_transport =
       ((0, Failed MessageTooLarge), idle_transport)"
    by (simp add: demo_platform_def)
  from over_limit have c: "YggInput_recv_nolimit_data ygg_recv_nolimit demo_peer [] 0
       (snd (YggOutput_send_nolimit_data (ygg_send_nolimit demo_platform) demo_output hello 5 idle_transport))
       = ((5, Success), hello, idle_transport)"
    by (simp add: r demo_peer_def demo_out_def idle_transport_def hello_def)
  have chunks: "split_chunks 4 hello = [Chunk True 4 [104, 101, 108, 108], Chunk False 1 [111]]"
    by (simp add: split_chunks.simps [of 4] hello_def)
  have d: "YggOutput_send_nolimit_data (ygg_send_nolimit demo_platform) demo_output hello 5 idle_transport =
       ((0, Success),
        idle_transport\<lparr>queue := (queue idle_transport)
          (1 := [Chunk True 4 [104, 101, 108, 108], Chunk False 1 [111]])\<rparr>)"
    by (simp add: YggOutput_send_nolimit_data_def ygg_send_nolimit_def demo_output_def demo_out_def
        demo_platform_def transport_send_def idle_transport_def hello_def
        chunks [unfolded hello_def])
  from opened a b c d show ?thesis
    by simp
qed

section \<open>Formatted send: one C function behind both entry points\<close>

text \<open>
  Claim C9. For every output endpoint, argument count and argument list, the formatted
  \<^verbatim>\<open>send(nargs, ...)\<close> and the formatted \<^verbatim>\<open>send_nolimit(nargs, ...)\<close> are the same
  function: each is the call \<^verbatim>\<open>vyggSend(_pi, nargs, va)\<close>, on the same transport state
  \<open>s\<close>, whatever \<^verbatim>\<open>vyggSend\<close> does. The formatted send has no separate bounded and
  unbounded variant at this interface.
\<close>

theorem formatted_send_nolimit_is_send:
  "YggOutput_send_nargs vyggSend self nargs va s = vyggSend (output_pi self) nargs va s
   \<and> YggOutput_send_nolimit_nargs vyggSend self nargs va s = vyggSend (output_pi self) nargs va s
   \<and> YggOutput_send_nolimit_nargs vyggSend = YggOutput_send_nargs vyggSend"
  by (simp add: YggOutput_send_nargs_def YggOutput_send_nolimit_nargs_def fun_eq_iff)

section \<open>The argument count of a formatted receive\<close>

text \<open>
  Claim C10. \<^verbatim>\<open>recv(nargs, ...)\<close> and \<^verbatim>\<open>recvRealloc(nargs, ...)\<close> hand the codec the
  count \<^verbatim>\<open>(size_t)nargs\<close> for every \<^verbatim>\<open>nargs\<close>, with no check: the value of \<^verbatim>\<open>nargs\<close>
  reduced modulo \<open>2 ^ w\<close>, \<open>w\<close> the width of \<^verbatim>\<open>size_t\<close>, which for a negative
  \<^verbatim>\<open>nargs\<close> (and \<open>w\<close> at least the 32 bits of \<^verbatim>\<open>int\<close>) is \<open>2 ^ w + nargs\<close>.
  \<^verbatim>\<open>recv_nolimit(nargs, ...)\<close> hands \<^verbatim>\<open>vyggRecv\<close> the signed \<^verbatim>\<open>nargs\<close> itself.
\<close>

theorem recv_count_cast:
  "YggInput_recv_nargs codec self nargs va
     = codec (input_pi self) 0 (size_t_of_int nargs :: 'w::len word) va
   \<and> YggInput_recvRealloc codec self nargs va
     = codec (input_pi self) 1 (size_t_of_int nargs :: 'w word) va
   \<and> uint (size_t_of_int nargs :: 'w word) = sint nargs mod 2 ^ LENGTH('w)
   \<and> (sint nargs < 0 \<and> 32 \<le> LENGTH('w) \<longrightarrow>
        uint (size_t_of_int nargs :: 'w word) = 2 ^ LENGTH('w) + sint nargs)
   \<and> YggInput_recv_nolimit_nargs vyggRecv self nargs va = vyggRecv (input_pi self) 0 nargs va"
proof -
  have cast: "uint (size_t_of_int nargs :: 'w word) = sint nargs mod 2 ^ LENGTH('w)"
    unfolding size_t_of_int_def by (rule uint_word_of_int)
  have wrap: "uint (size_t_of_int nargs :: 'w word) = 2 ^ LENGTH('w) + sint nargs"
    if neg: "sint nargs < 0" and w: "32 \<le> LENGTH('w)"
  proof -
    have "- (2 ^ 31) \<le> sint nargs"
      using sint_ge [of nargs] by simp
    moreover have "(2::int) ^ 31 \<le> 2 ^ LENGTH('w)"
      using w by (intro power_increasing) auto
    ultimately have lo: "0 \<le> sint nargs + 2 ^ LENGTH('w)"
      by linarith
    have "sint nargs mod 2 ^ LENGTH('w) = (sint nargs + 2 ^ LENGTH('w)) mod 2 ^ LENGTH('w)"
      by simp
    also have "\<dots> = sint nargs + 2 ^ LENGTH('w)"
      using lo neg by (intro mod_pos_pos_trivial) auto
    finally show ?thesis
      by (simp only: cast add.commute)
  qed
  show ?thesis
    using cast wrap
    by (simp add: YggInput_recv_nargs_def YggInput_recvRealloc_def
        YggInput_recv_nolimit_nargs_def)
qed

text \<open>The theorem at \<^verbatim>\<open>nargs = -1\<close> and a \<^verbatim>\<open>size_t\<close> of 64 bits: the codec is handed
  \<open>2 ^ 64 - 1\<close>.\<close>

theorem recv_count_cast_witness:
  "sint (- 1 :: int_t) < 0 \<and> 32 \<le> LENGTH(64)
   \<and> uint (size_t_of_int (- 1) :: 64 word) = 2 ^ 64 - 1
   \<and> unat (size_t_of_int (- 1) :: 64 word) = 18446744073709551615"
proof -
  have "sint (- 1 :: int_t) < 0 \<and> 32 \<le> LENGTH(64) \<longrightarrow>
      uint (size_t_of_int (- 1) :: 64 word) = 2 ^ LENGTH(64) + sint (- 1 :: int_t)"
    by (rule recv_count_cast [THEN conjunct2, THEN conjunct2, THEN conjunct2, THEN conjunct1])
  then have "uint (size_t_of_int (- 1) :: 64 word) = 2 ^ 64 - 1"
    by simp
  then show ?thesis
    by (simp add: unat_eq_nat_uint)
qed

end
